theory Spec2Isabelle
  imports Complex_Main "HOL-Library.Sublist"
begin

section \<open>Values exchanged with the server\<close>

text \<open>
  The scanner of \<^verbatim>\<open>hidebilishow_scanner.py\<close> handles whatever \<^verbatim>\<open>response.json()\<close>
  decodes, so the model carries the whole range of decoded JSON: Python's \<^verbatim>\<open>None\<close>,
  \<^verbatim>\<open>bool\<close>, unbounded \<^verbatim>\<open>int\<close>, \<^verbatim>\<open>float\<close>, \<^verbatim>\<open>str\<close>, \<^verbatim>\<open>list\<close> and \<^verbatim>\<open>dict\<close>.
  A float is kept as the number it denotes (or one of the three special values); the only
  thing the program does with one is compare it with an integer literal, which Python does
  exactly. A \<^verbatim>\<open>str\<close> is kept as its UTF-8 bytes. A \<^verbatim>\<open>dict\<close> is an association list in
  insertion order, read with \<open>map_of\<close>.
\<close>

datatype pyfloat = Finite real | PosInf | NegInf | NaN

datatype json =
    JNull
  | JBool bool
  | JInt int
  | JFloat pyfloat
  | JStr string
  | JArr "json list"
  | JObj "(string \<times> json) list"

text \<open>Python's \<^verbatim>\<open>v == n\<close> for an integer literal \<open>n\<close>: \<^verbatim>\<open>True == 1\<close>, \<^verbatim>\<open>1.0 == 1\<close> and
  \<^verbatim>\<open>False == 0\<close> hold, \<^verbatim>\<open>None == 0\<close> and \<^verbatim>\<open>"1" == 1\<close> do not.\<close>

fun py_eq_int :: "json \<Rightarrow> int \<Rightarrow> bool" where
  "py_eq_int (JInt k) n = (k = n)"
| "py_eq_int (JBool b) n = ((if b then 1 else 0) = n)"
| "py_eq_int (JFloat (Finite r)) n = (r = of_int n)"
| "py_eq_int _ n = False"

text \<open>\<^verbatim>\<open>d.get(key)\<close> and \<^verbatim>\<open>d.get(key, default)\<close> on a \<^verbatim>\<open>dict\<close>.\<close>

definition dict_get :: "(string \<times> json) list \<Rightarrow> string \<Rightarrow> json \<Rightarrow> json" where
  "dict_get d k dflt = (case map_of d k of None \<Rightarrow> dflt | Some v \<Rightarrow> v)"

text \<open>The two fixed texts of the source that the model needs, as UTF-8 bytes: the
  error text of \<^verbatim>\<open>scan_project\<close>, and the default project name.\<close>

definition err_no_info :: string where
  "err_no_info =
     [CHR 0xE6, CHR 0x97, CHR 0xA0, CHR 0xE6, CHR 0xB3, CHR 0x95, CHR 0xE8, CHR 0x8E,
      CHR 0xB7, CHR 0xE5, CHR 0x8F, CHR 0x96, CHR 0xE9, CHR 0xA1, CHR 0xB9, CHR 0xE7,
      CHR 0x9B, CHR 0xAE, CHR 0xE4, CHR 0xBF, CHR 0xA1, CHR 0xE6, CHR 0x81, CHR 0xAF]"

definition unknown_project :: string where
  "unknown_project =
     [CHR 0xE6, CHR 0x9C, CHR 0xAA, CHR 0xE7, CHR 0x9F, CHR 0xA5,
      CHR 0xE9, CHR 0xA1, CHR 0xB9, CHR 0xE7, CHR 0x9B, CHR 0xAE]"

section \<open>The scanner\<close>

text \<open>
  What one pass through the \<^verbatim>\<open>try\<close> block of \<^verbatim>\<open>get_project_info\<close> can meet:
  \<^verbatim>\<open>session.get\<close> raising (timeout, connection failure), \<^verbatim>\<open>raise_for_status\<close> raising on
  a 4xx/5xx status, \<^verbatim>\<open>response.json()\<close> raising on a body that is not JSON, any other
  \<^verbatim>\<open>Exception\<close>, or a decoded body.
\<close>

datatype fetch =
    TransportError
  | HTTPStatusError nat
  | DecodeError
  | OtherError
  | Payload json

text \<open>The exceptions that leave the modelled functions: \<^verbatim>\<open>AttributeError\<close> from
  \<^verbatim>\<open>.get\<close> on a value that is not a \<^verbatim>\<open>dict\<close>, and \<^verbatim>\<open>ValueError\<close> from \<^verbatim>\<open>time.sleep\<close>
  with a negative argument. An interruption by the operator (\<^verbatim>\<open>KeyboardInterrupt\<close>) can
  arrive at any moment and is not modelled; \<^verbatim>\<open>print\<close> is taken to succeed.\<close>

datatype pyerr = AttributeError | ValueError

text \<open>The \<^verbatim>\<open>result\<close> dict of \<^verbatim>\<open>scan_project\<close>, with its five fixed keys
  (\<^verbatim>\<open>'id'\<close> is the field \<open>id_val\<close>).\<close>

record outcome =
  id_val :: int
  hide :: json
  name :: json
  status :: string
  error :: "string option"

text \<open>What the program does to the outside, in order: one entry per \<^verbatim>\<open>session.get\<close> and
  one per \<^verbatim>\<open>time.sleep\<close>. Console output is not modelled.\<close>

datatype event = is_Fetch: Fetch int | is_Sleep: Sleep real

text \<open>The two lists of \<^verbatim>\<open>BilibiliShowScanner\<close>, and the record of its outside actions.\<close>

record scanner =
  hidden_projects :: "outcome list"
  scan_results :: "outcome list"
  trace :: "event list"

text \<open>\<^verbatim>\<open>__init__\<close>: both lists start empty.\<close>

definition init_scanner :: scanner where
  "init_scanner = \<lparr>hidden_projects = [], scan_results = [], trace = []\<rparr>"

text \<open>
  \<^verbatim>\<open>get_project_info\<close>, given what the request met. Every \<^verbatim>\<open>except\<close> clause returns
  \<^verbatim>\<open>None\<close>; a decoded body that is not a \<^verbatim>\<open>dict\<close> raises \<^verbatim>\<open>AttributeError\<close> at
  \<^verbatim>\<open>data.get('code')\<close>, inside the \<^verbatim>\<open>try\<close>, and the last clause returns \<^verbatim>\<open>None\<close> for it
  too. Python's \<^verbatim>\<open>None\<close> is \<open>JNull\<close>.
\<close>

fun get_project_info :: "fetch \<Rightarrow> json" where
  "get_project_info (Payload (JObj data)) =
     (if py_eq_int (dict_get data ''code'' JNull) 0
      then dict_get data ''data'' JNull
      else JNull)"
| "get_project_info _ = JNull"

text \<open>
  \<^verbatim>\<open>scan_project\<close>. The request is made first. \<^verbatim>\<open>project_info.get('hide')\<close> is outside
  any \<^verbatim>\<open>try\<close>: on a \<^verbatim>\<open>project_info\<close> that is neither \<^verbatim>\<open>None\<close> nor a \<^verbatim>\<open>dict\<close> the
  \<^verbatim>\<open>AttributeError\<close> leaves the function, before either list is touched.
\<close>

definition scan_project :: "fetch \<Rightarrow> int \<Rightarrow> scanner \<Rightarrow> (pyerr + outcome) \<times> scanner" where
  "scan_project f project_id s =
     (let result = \<lparr>id_val = project_id, hide = JNull, name = JNull,
                     status = ''unknown'', error = None\<rparr>;
          s1 = s\<lparr>trace := trace s @ [Fetch project_id]\<rparr>
      in case get_project_info f of
           JNull \<Rightarrow> (Inr (result\<lparr>status := ''error'', error := Some err_no_info\<rparr>), s1)
         | JObj project_info \<Rightarrow>
             (let result' = result\<lparr>hide := dict_get project_info ''hide'' JNull,
                                   name := dict_get project_info ''name'' (JStr unknown_project),
                                   status := ''success''\<rparr>
              in if py_eq_int (hide result') 1
                 then (Inr result', s1\<lparr>hidden_projects := hidden_projects s1 @ [result']\<rparr>)
                 else (Inr result', s1))
         | _ \<Rightarrow> (Inl AttributeError, s1))"

text \<open>\<^verbatim>\<open>time.sleep(interval)\<close>: a negative argument raises \<^verbatim>\<open>ValueError\<close>.\<close>

definition sleep :: "real \<Rightarrow> scanner \<Rightarrow> (pyerr + unit) \<times> scanner" where
  "sleep interval s =
     (if interval < 0 then (Inl ValueError, s)
      else (Inr (), s\<lparr>trace := trace s @ [Sleep interval]\<rparr>))"

text \<open>
  The body of the \<^verbatim>\<open>for\<close> loop of \<^verbatim>\<open>scan_range\<close> for one \<^verbatim>\<open>project_id\<close>: scan, append
  to \<^verbatim>\<open>scan_results\<close>, sleep unless this is \<^verbatim>\<open>end_id\<close>. \<open>net\<close> gives what the request for
  each ID meets; a loop over a range asks for each ID once.
\<close>

definition scan_step ::
  "(int \<Rightarrow> fetch) \<Rightarrow> real \<Rightarrow> int \<Rightarrow> int \<Rightarrow> scanner \<Rightarrow> (pyerr + unit) \<times> scanner" where
  "scan_step net interval end_id project_id s =
     (case scan_project (net project_id) project_id s of
        (Inl e, s1) \<Rightarrow> (Inl e, s1)
      | (Inr result, s1) \<Rightarrow>
          (let s2 = s1\<lparr>scan_results := scan_results s1 @ [result]\<rparr>
           in if project_id < end_id then sleep interval s2 else (Inr (), s2)))"

text \<open>The loop over the IDs still to visit; an exception ends it with the state as it is.\<close>

fun scan_loop ::
  "(int \<Rightarrow> fetch) \<Rightarrow> real \<Rightarrow> int \<Rightarrow> int list \<Rightarrow> scanner \<Rightarrow> (pyerr + unit) \<times> scanner" where
  "scan_loop net interval end_id [] s = (Inr (), s)"
| "scan_loop net interval end_id (project_id # ids) s =
     (case scan_step net interval end_id project_id s of
        (Inl e, s1) \<Rightarrow> (Inl e, s1)
      | (Inr u, s1) \<Rightarrow> scan_loop net interval end_id ids s1)"

text \<open>\<^verbatim>\<open>scan_range\<close>: the loop over \<^verbatim>\<open>range(start_id, end_id + 1)\<close>.\<close>

definition scan_range ::
  "(int \<Rightarrow> fetch) \<Rightarrow> int \<Rightarrow> int \<Rightarrow> real \<Rightarrow> scanner \<Rightarrow> (pyerr + unit) \<times> scanner" where
  "scan_range net start_id end_id interval s =
     scan_loop net interval end_id [start_id..end_id] s"

section \<open>Saving the results\<close>

text \<open>A \<^verbatim>\<open>result\<close> dict as the JSON object it is, keys in the order of the dict display of
  \<^verbatim>\<open>scan_project\<close>.\<close>

definition outcome_dict :: "outcome \<Rightarrow> json" where
  "outcome_dict r =
     JObj [(''id'', JInt (id_val r)),
           (''hide'', hide r),
           (''name'', name r),
           (''status'', JStr (status r)),
           (''error'', (case error r of None \<Rightarrow> JNull | Some m \<Rightarrow> JStr m))]"

text \<open>The \<^verbatim>\<open>results_data\<close> dict of \<^verbatim>\<open>save_results\<close>; \<open>scan_time\<close> is what
  \<^verbatim>\<open>datetime.now().isoformat()\<close> returns.\<close>

definition results_data :: "string \<Rightarrow> scanner \<Rightarrow> json" where
  "results_data scan_time s =
     JObj [(''scan_time'', JStr scan_time),
           (''total_scanned'', JInt (int (length (scan_results s)))),
           (''hidden_count'', JInt (int (length (hidden_projects s)))),
           (''hidden_projects'', JArr (map outcome_dict (hidden_projects s))),
           (''all_results'', JArr (map outcome_dict (scan_results s)))]"

text \<open>
  \<^verbatim>\<open>save_results\<close>. The encoder \<^verbatim>\<open>json.dump\<close> belongs to Python's library, not to this
  program, and is a parameter: \<open>dump\<close> gives the text written for a value, or nothing when
  writing it raises. \<open>writable\<close> says whether \<^verbatim>\<open>open(filename, 'w')\<close> and the write
  succeed, \<open>stamp\<close> is what \<^verbatim>\<open>strftime("%Y%m%d_%H%M%S")\<close> returns. The result is the file
  written, with its name; every exception is caught and leaves no complete document.
\<close>

definition save_results ::
  "(json \<Rightarrow> 'doc option) \<Rightarrow> (string \<Rightarrow> bool) \<Rightarrow> string option \<Rightarrow> string \<Rightarrow> string \<Rightarrow> scanner
     \<Rightarrow> (string \<times> 'doc) option" where
  "save_results dump writable filename stamp scan_time s =
     (let fname = (case filename of
                     None \<Rightarrow> ''bilibili_scan_results_'' @ stamp @ ''.json''
                   | Some f \<Rightarrow> f)
      in if writable fname
         then (case dump (results_data scan_time s) of
                 None \<Rightarrow> None
               | Some doc \<Rightarrow> Some (fname, doc))
         else None)"

text \<open>Reading a key of a parsed document.\<close>

definition json_field :: "json \<Rightarrow> string \<Rightarrow> json option" where
  "json_field v k = (case v of JObj d \<Rightarrow> map_of d k | _ \<Rightarrow> None)"

section \<open>Vocabulary of the properties\<close>

text \<open>The declared return type of \<^verbatim>\<open>get_project_info\<close>, \<^verbatim>\<open>Optional[Dict]\<close>: \<^verbatim>\<open>None\<close> or a
  \<^verbatim>\<open>dict\<close>. The server decides whether the value returned has it.\<close>

definition optional_dict :: "json \<Rightarrow> bool" where
  "optional_dict v = (case v of JNull \<Rightarrow> True | JObj _ \<Rightarrow> True | _ \<Rightarrow> False)"

text \<open>The dict that \<^verbatim>\<open>scan_project\<close> returns for a \<^verbatim>\<open>project_info\<close> of that type, in
  closed form (lemma \<open>scan_project_ok\<close> below).\<close>

definition outcome_of :: "json \<Rightarrow> int \<Rightarrow> outcome" where
  "outcome_of info project_id =
     (case info of
        JObj d \<Rightarrow> \<lparr>id_val = project_id, hide = dict_get d ''hide'' JNull,
                   name = dict_get d ''name'' (JStr unknown_project),
                   status = ''success'', error = None\<rparr>
      | _ \<Rightarrow> \<lparr>id_val = project_id, hide = JNull, name = JNull,
               status = ''error'', error = Some err_no_info\<rparr>)"

text \<open>An outcome with status \<^verbatim>\<open>'success'\<close> and \<^verbatim>\<open>hide == 1\<close>.\<close>

definition is_hidden :: "outcome \<Rightarrow> bool" where
  "is_hidden r = (status r = ''success'' \<and> py_eq_int (hide r) 1)"

text \<open>The hidden projects are the hidden outcomes of the log, in the order of the log.\<close>

definition log_consistent :: "scanner \<Rightarrow> bool" where
  "log_consistent s = (hidden_projects s = filter is_hidden (scan_results s))"

text \<open>One scanner's lists followed by another's.\<close>

definition scanner_append :: "scanner \<Rightarrow> scanner \<Rightarrow> scanner" where
  "scanner_append s t =
     \<lparr>hidden_projects = hidden_projects s @ hidden_projects t,
      scan_results = scan_results s @ scan_results t,
      trace = trace s @ trace t\<rparr>"

text \<open>The scenario of the specification: ID 100 is hidden, the request for 101 times out,
  102 is not hidden; every other request fails too.\<close>

definition demo_net :: "int \<Rightarrow> fetch" where
  "demo_net i =
     (if i = 100 then
        Payload (JObj [(''code'', JInt 0),
                       (''data'', JObj [(''hide'', JInt 1), (''name'', JStr ''A'')])])
      else if i = 102 then
        Payload (JObj [(''code'', JInt 0),
                       (''data'', JObj [(''hide'', JInt 0), (''name'', JStr ''B'')])])
      else TransportError)"

text \<open>Answers of which one breaks the declared type of \<^verbatim>\<open>get_project_info\<close>: for ID 8 the
  body is \<^verbatim>\<open>{"code": 0, "data": []}\<close>, for every other ID it is
  \<^verbatim>\<open>{"code": 0, "data": {"hide": 0, "name": "B"}}\<close>.\<close>

definition list_data_net :: "int \<Rightarrow> fetch" where
  "list_data_net i =
     (if i = 8 then Payload (JObj [(''code'', JInt 0), (''data'', JArr [])])
      else Payload (JObj [(''code'', JInt 0),
                          (''data'', JObj [(''hide'', JInt 0), (''name'', JStr ''B'')])]))"

section \<open>Auxiliary facts\<close>

lemma init_scanner_sel [simp]:
  "hidden_projects init_scanner = []" "scan_results init_scanner = []" "trace init_scanner = []"
  by (simp_all add: init_scanner_def)

lemma scan_project_ok:
  assumes "optional_dict (get_project_info f)"
  shows "scan_project f i s =
    (Inr (outcome_of (get_project_info f) i),
     s\<lparr>trace := trace s @ [Fetch i],
       hidden_projects := hidden_projects s @
         (if py_eq_int (hide (outcome_of (get_project_info f) i)) 1
          then [outcome_of (get_project_info f) i] else [])\<rparr>)"
  using assms
  by (cases "get_project_info f")
     (simp_all add: scan_project_def outcome_of_def optional_dict_def Let_def)

lemma scan_project_raise:
  assumes "\<not> optional_dict (get_project_info f)"
  shows "scan_project f i s = (Inl AttributeError, s\<lparr>trace := trace s @ [Fetch i]\<rparr>)"
  using assms
  by (cases "get_project_info f")
     (simp_all add: scan_project_def optional_dict_def Let_def)

lemma outcome_of_simps [simp]:
  "id_val (outcome_of info i) = i"
  "py_eq_int (hide (outcome_of info i)) 1 \<Longrightarrow> status (outcome_of info i) = ''success''"
  by (cases info; simp add: outcome_of_def)+

lemma is_hidden_outcome_of:
  "is_hidden (outcome_of info i) = py_eq_int (hide (outcome_of info i)) 1"
  by (auto simp: is_hidden_def)

lemma scanner_append_init [simp]: "scanner_append s init_scanner = s" "scanner_append init_scanner s = s"
  by (simp_all add: scanner_append_def init_scanner_def)

lemma scanner_append_assoc: "scanner_append (scanner_append s t) u = scanner_append s (scanner_append t u)"
  by (simp add: scanner_append_def)

lemma scanner_append_sel [simp]:
  "hidden_projects (scanner_append s t) = hidden_projects s @ hidden_projects t"
  "scan_results (scanner_append s t) = scan_results s @ scan_results t"
  "trace (scanner_append s t) = trace s @ trace t"
  by (simp_all add: scanner_append_def)

lemma scan_project_frame:
  "scan_project f i s =
     (fst (scan_project f i init_scanner), scanner_append s (snd (scan_project f i init_scanner)))"
  by (cases "optional_dict (get_project_info f)")
     (simp_all add: scan_project_ok scan_project_raise scanner_append_def init_scanner_def)

lemma sleep_frame:
  "sleep iv (scanner_append s t) = (fst (sleep iv t), scanner_append s (snd (sleep iv t)))"
  by (simp add: sleep_def scanner_append_def)

lemma scan_step_frame:
  "scan_step net iv e i s =
     (fst (scan_step net iv e i init_scanner), scanner_append s (snd (scan_step net iv e i init_scanner)))"
proof -
  obtain r t where rt: "scan_project (net i) i init_scanner = (r, t)"
    by (cases "scan_project (net i) i init_scanner")
  then have st: "scan_project (net i) i s = (r, scanner_append s t)"
    using scan_project_frame [of "net i" i s] by simp
  show ?thesis
  proof (cases r)
    case (Inl err)
    then show ?thesis by (simp add: scan_step_def rt st)
  next
    case (Inr res)
    have a: "(scanner_append s t)\<lparr>scan_results := scan_results s @ scan_results t @ [res]\<rparr> =
             scanner_append s (t\<lparr>scan_results := scan_results t @ [res]\<rparr>)"
      by (simp add: scanner_append_def)
    show ?thesis
      by (simp add: scan_step_def rt st Inr Let_def a sleep_frame)
  qed
qed

lemma scan_loop_frame:
  "scan_loop net iv e ids s =
     (fst (scan_loop net iv e ids init_scanner), scanner_append s (snd (scan_loop net iv e ids init_scanner)))"
proof (induction ids arbitrary: s)
  case Nil
  show ?case by simp
next
  case (Cons i ids)
  obtain r t where rt: "scan_step net iv e i init_scanner = (r, t)"
    by (cases "scan_step net iv e i init_scanner")
  then have st: "scan_step net iv e i s = (r, scanner_append s t)"
    using scan_step_frame [of net iv e i s] by simp
  show ?case
  proof (cases r)
    case (Inl err)
    then show ?thesis by (simp add: rt st)
  next
    case (Inr u)
    have "scan_loop net iv e (i # ids) s = scan_loop net iv e ids (scanner_append s t)"
      by (simp add: st Inr)
    also have "\<dots> = (fst (scan_loop net iv e ids init_scanner),
                      scanner_append (scanner_append s t) (snd (scan_loop net iv e ids init_scanner)))"
      by (rule Cons.IH)
    finally have lhs: "scan_loop net iv e (i # ids) s =
        (fst (scan_loop net iv e ids init_scanner),
         scanner_append s (scanner_append t (snd (scan_loop net iv e ids init_scanner))))"
      by (simp add: scanner_append_assoc)
    have "scan_loop net iv e (i # ids) init_scanner = scan_loop net iv e ids t"
      by (simp add: rt Inr)
    also have "\<dots> = (fst (scan_loop net iv e ids init_scanner),
                      scanner_append t (snd (scan_loop net iv e ids init_scanner)))"
      by (rule Cons.IH)
    finally show ?thesis using lhs by simp
  qed
qed

lemma scan_step_ok:
  assumes "optional_dict (get_project_info (net i))" and "0 \<le> iv"
  shows "scan_step net iv e i s =
    (Inr (),
     s\<lparr>trace := trace s @ (if i < e then [Fetch i, Sleep iv] else [Fetch i]),
       hidden_projects := hidden_projects s @
         filter is_hidden [outcome_of (get_project_info (net i)) i],
       scan_results := scan_results s @ [outcome_of (get_project_info (net i)) i]\<rparr>)"
  using assms
  by (simp add: scan_step_def scan_project_ok sleep_def Let_def is_hidden_outcome_of)

lemma scan_loop_ok:
  assumes "\<forall>i\<in>set ids. optional_dict (get_project_info (net i))" and "0 \<le> iv"
  shows "scan_loop net iv e ids s =
    (Inr (),
     s\<lparr>trace := trace s @
         concat (map (\<lambda>i. if i < e then [Fetch i, Sleep iv] else [Fetch i]) ids),
       hidden_projects := hidden_projects s @
         filter is_hidden (map (\<lambda>i. outcome_of (get_project_info (net i)) i) ids),
       scan_results := scan_results s @
         map (\<lambda>i. outcome_of (get_project_info (net i)) i) ids\<rparr>)"
  using assms
proof (induction ids arbitrary: s)
  case Nil
  show ?case by simp
next
  case (Cons i ids)
  then show ?case
    by (simp add: scan_step_ok)
qed

lemma scan_step_consistent:
  assumes "log_consistent s"
  shows "log_consistent (snd (scan_step net iv e i s))"
proof (cases "optional_dict (get_project_info (net i))")
  case True
  then show ?thesis
    using assms
    by (simp add: scan_step_def scan_project_ok sleep_def Let_def log_consistent_def
        is_hidden_outcome_of)
next
  case False
  then show ?thesis
    using assms by (simp add: scan_step_def scan_project_raise log_consistent_def)
qed

lemma scan_loop_consistent:
  assumes "log_consistent s"
  shows "log_consistent (snd (scan_loop net iv e ids s))"
  using assms
proof (induction ids arbitrary: s)
  case Nil
  then show ?case by simp
next
  case (Cons i ids)
  obtain r t where rt: "scan_step net iv e i s = (r, t)"
    by (cases "scan_step net iv e i s")
  have t: "log_consistent t"
    using scan_step_consistent [OF Cons.prems, of net iv e i] rt by simp
  show ?case
  proof (cases r)
    case (Inl err)
    then show ?thesis using t by (simp add: rt)
  next
    case (Inr u)
    then show ?thesis using Cons.IH [OF t] by (simp add: rt)
  qed
qed

lemma scan_loop_append:
  "scan_loop net iv e (xs @ ys) s =
     (case scan_loop net iv e xs s of
        (Inl err, s1) \<Rightarrow> (Inl err, s1)
      | (Inr u, s1) \<Rightarrow> scan_loop net iv e ys s1)"
proof (induction xs arbitrary: s)
  case Nil
  show ?case by simp
next
  case (Cons i xs)
  show ?case
    by (cases "scan_step net iv e i s") (auto simp: Cons.IH split: sum.splits)
qed

lemma trace_upto:
  assumes "a \<le> e"
  shows "concat (map (\<lambda>i. if i < e then [Fetch i, Sleep iv] else [Fetch i]) [a..e]) =
         concat (map (\<lambda>i. [Fetch i, Sleep iv]) [a..e - 1]) @ [Fetch e]"
proof -
  let ?f = "\<lambda>i. if i < e then [Fetch i, Sleep iv] else [Fetch i]"
  have cut: "[a..e] = [a..e - 1] @ [e]"
    by (rule upto_rec2 [OF assms])
  have "concat (map ?f [a..e]) = concat (map ?f [a..e - 1]) @ [Fetch e]"
    unfolding cut by simp
  moreover have "map ?f [a..e - 1] = map (\<lambda>i. [Fetch i, Sleep iv]) [a..e - 1]"
    by (rule map_cong) auto
  ultimately show ?thesis by (simp only:)
qed

lemma count_pairs:
  "length (filter is_Sleep (concat (map (\<lambda>i. [Fetch i, Sleep iv]) xs))) = length xs"
  "length (filter is_Fetch (concat (map (\<lambda>i. [Fetch i, Sleep iv]) xs))) = length xs"
  "filter is_Sleep (concat (map (\<lambda>i. [Fetch i, Sleep iv]) xs)) = map (\<lambda>i. Sleep iv) xs"
  by (induction xs) simp_all

lemma demo_net_optional_dict: "optional_dict (get_project_info (demo_net i))"
  by (simp add: demo_net_def optional_dict_def dict_get_def)

lemma scan_range_run:
  assumes "0 \<le> interval"
    and "\<And>i. start_id \<le> i \<Longrightarrow> i \<le> end_id \<Longrightarrow> optional_dict (get_project_info (net i))"
  shows "scan_range net start_id end_id interval s =
    (Inr (),
     s\<lparr>trace := trace s @
         concat (map (\<lambda>i. if i < end_id then [Fetch i, Sleep interval] else [Fetch i])
           [start_id..end_id]),
       hidden_projects := hidden_projects s @
         filter is_hidden (map (\<lambda>i. outcome_of (get_project_info (net i)) i) [start_id..end_id]),
       scan_results := scan_results s @
         map (\<lambda>i. outcome_of (get_project_info (net i)) i) [start_id..end_id]\<rparr>)"
proof -
  have ok: "\<forall>i\<in>set [start_id..end_id]. optional_dict (get_project_info (net i))"
    using assms(2) by simp
  show ?thesis
    unfolding scan_range_def by (rule scan_loop_ok [OF ok assms(1)])
qed

lemma scan_step_log:
  "\<exists>rs. scan_results (snd (scan_step net iv e i s)) = scan_results s @ rs \<and>
        hidden_projects (snd (scan_step net iv e i s)) = hidden_projects s @ filter is_hidden rs \<and>
        (\<forall>r\<in>set rs. \<exists>j. r = outcome_of (get_project_info (net j)) j)"
proof (cases "optional_dict (get_project_info (net i))")
  case True
  show ?thesis
    by (rule exI [where x = "[outcome_of (get_project_info (net i)) i]"])
       (auto simp: scan_step_def scan_project_ok [OF True] sleep_def Let_def is_hidden_outcome_of)
next
  case False
  show ?thesis
    by (rule exI [where x = "[]"]) (simp add: scan_step_def scan_project_raise [OF False])
qed

lemma scan_loop_log:
  "\<exists>rs. scan_results (snd (scan_loop net iv e ids s)) = scan_results s @ rs \<and>
        hidden_projects (snd (scan_loop net iv e ids s)) = hidden_projects s @ filter is_hidden rs \<and>
        (\<forall>r\<in>set rs. \<exists>j. r = outcome_of (get_project_info (net j)) j)"
proof (induction ids arbitrary: s)
  case Nil
  show ?case by simp
next
  case (Cons i ids)
  obtain r t where rt: "scan_step net iv e i s = (r, t)"
    by (cases "scan_step net iv e i s")
  obtain rs where rs: "scan_results t = scan_results s @ rs"
      "hidden_projects t = hidden_projects s @ filter is_hidden rs"
      "\<forall>r\<in>set rs. \<exists>j. r = outcome_of (get_project_info (net j)) j"
    using scan_step_log [of net iv e i s] rt by auto
  show ?case
  proof (cases r)
    case (Inl err)
    then show ?thesis using rs by (auto simp: rt)
  next
    case (Inr u)
    obtain rs' where rs': "scan_results (snd (scan_loop net iv e ids t)) = scan_results t @ rs'"
      "hidden_projects (snd (scan_loop net iv e ids t)) = hidden_projects t @ filter is_hidden rs'"
      "\<forall>r\<in>set rs'. \<exists>j. r = outcome_of (get_project_info (net j)) j"
      using Cons.IH [of t] by auto
    show ?thesis
      by (rule exI [where x = "rs @ rs'"]) (use rs rs' in \<open>auto simp: rt Inr\<close>)
  qed
qed

lemma scan_project_between:
  assumes "log_consistent s" and "scan_project f i s = (Inr r, s')"
  shows "hidden_projects s' = filter is_hidden (scan_results s' @ [r])"
proof (cases "optional_dict (get_project_info f)")
  case True
  show ?thesis
    using assms
    by (auto simp: scan_project_ok [OF True] log_consistent_def is_hidden_outcome_of)
next
  case False
  show ?thesis
    using assms by (simp add: scan_project_raise [OF False])
qed

lemma hidden_ahead_lemma:
  "scan_project (demo_net 100) 100 init_scanner =
     (Inr \<lparr>id_val = 100, hide = JInt 1, name = JStr ''A'', status = ''success'', error = None\<rparr>,
      \<lparr>hidden_projects =
         [\<lparr>id_val = 100, hide = JInt 1, name = JStr ''A'', status = ''success'', error = None\<rparr>],
       scan_results = [], trace = [Fetch 100]\<rparr>)"
  by (simp add: init_scanner_def scan_project_def demo_net_def dict_get_def Let_def)

lemma demo_scan:
  "scan_range demo_net 100 102 (1/2) init_scanner =
     (Inr (),
      \<lparr>hidden_projects =
         [\<lparr>id_val = 100, hide = JInt 1, name = JStr ''A'', status = ''success'', error = None\<rparr>],
       scan_results =
         [\<lparr>id_val = 100, hide = JInt 1, name = JStr ''A'', status = ''success'', error = None\<rparr>,
          \<lparr>id_val = 101, hide = JNull, name = JNull, status = ''error'', error = Some err_no_info\<rparr>,
          \<lparr>id_val = 102, hide = JInt 0, name = JStr ''B'', status = ''success'', error = None\<rparr>],
       trace = [Fetch 100, Sleep (1/2), Fetch 101, Sleep (1/2), Fetch 102]\<rparr>)"
  by (simp add: scan_range_def scan_step_def scan_project_def sleep_def demo_net_def Let_def
      dict_get_def init_scanner_def)

lemma fetch_pairs:
  "filter is_Fetch (concat (map (\<lambda>i. [Fetch i, Sleep iv]) xs)) = map Fetch xs"
  by (induction xs) simp_all

lemma init_scanner_fetch:
  "init_scanner\<lparr>trace := trace init_scanner @ [Fetch i]\<rparr> =
     \<lparr>hidden_projects = [], scan_results = [], trace = [Fetch i]\<rparr>"
  by (simp add: init_scanner_def)

lemma scan_project_none:
  assumes "get_project_info f = JNull"
  shows "scan_project f i s =
    (Inr \<lparr>id_val = i, hide = JNull, name = JNull, status = ''error'', error = Some err_no_info\<rparr>,
     s\<lparr>trace := trace s @ [Fetch i]\<rparr>)"
  by (simp add: scan_project_def assms)

lemma scan_project_dict:
  assumes "get_project_info f = JObj d"
  shows "scan_project f i s =
    (Inr \<lparr>id_val = i, hide = dict_get d ''hide'' JNull,
          name = dict_get d ''name'' (JStr unknown_project),
          status = ''success'', error = None\<rparr>,
     if py_eq_int (dict_get d ''hide'' JNull) 1
     then s\<lparr>trace := trace s @ [Fetch i],
            hidden_projects := hidden_projects s @
              [\<lparr>id_val = i, hide = dict_get d ''hide'' JNull,
                name = dict_get d ''name'' (JStr unknown_project),
                status = ''success'', error = None\<rparr>]\<rparr>
     else s\<lparr>trace := trace s @ [Fetch i]\<rparr>)"
  by (simp add: scan_project_def assms Let_def)

lemma scan_range_single:
  "trace (snd (scan_range net a a iv init_scanner)) = [Fetch a]"
proof (cases "optional_dict (get_project_info (net a))")
  case True
  show ?thesis
    by (simp add: scan_range_def scan_step_def scan_project_ok [OF True])
next
  case False
  show ?thesis
    by (simp add: scan_range_def scan_step_def scan_project_raise [OF False])
qed

lemma results_data_fields:
  "json_field (results_data scan_time s) ''total_scanned'' =
     Some (JInt (int (length (scan_results s))))"
  "json_field (results_data scan_time s) ''hidden_count'' =
     Some (JInt (int (length (hidden_projects s))))"
  "json_field (results_data scan_time s) ''hidden_projects'' =
     Some (JArr (map outcome_dict (hidden_projects s)))"
  "json_field (results_data scan_time s) ''all_results'' =
     Some (JArr (map outcome_dict (scan_results s)))"
  by (simp_all add: json_field_def results_data_def)

lemma outcome_dict_fields:
  "json_field (outcome_dict r) ''id'' = Some (JInt (id_val r))"
  "json_field (outcome_dict r) ''hide'' = Some (hide r)"
  "json_field (outcome_dict r) ''name'' = Some (name r)"
  "json_field (outcome_dict r) ''status'' = Some (JStr (status r))"
  "json_field (outcome_dict r) ''error'' = Some (case error r of None \<Rightarrow> JNull | Some m \<Rightarrow> JStr m)"
  by (simp_all add: json_field_def outcome_dict_def)

lemma outcome_dict_inj: "outcome_dict r = outcome_dict r' \<Longrightarrow> r = r'"
  by (cases r; cases r') (auto simp: outcome_dict_def split: option.splits)

lemma save_results_Some:
  assumes "save_results dump writable filename stamp scan_time s = Some (fname, doc)"
  shows "dump (results_data scan_time s) = Some doc"
  using assms
  by (auto simp: save_results_def Let_def split: if_splits option.splits)

lemma outcome_of_status:
  "(status (outcome_of info i) = ''success'' \<or> status (outcome_of info i) = ''error'') \<and>
   status (outcome_of info i) \<noteq> ''unknown''"
  by (cases info) (simp_all add: outcome_of_def)

section \<open>The range scan\<close>

text \<open>
  A scan whose interval is not negative and whose requests all let \<^verbatim>\<open>get_project_info\<close>
  return a value of its declared type, on a fresh scanner with \<open>start_id \<le> end_id\<close>: it
  returns normally and logs exactly \<open>end_id - start_id + 1\<close> outcomes, whose IDs are
  \<open>start_id, start_id + 1, \<dots>, end_id\<close> in this order; the outcome at position \<open>k\<close> has ID
  \<open>start_id + k\<close>, no ID is missing and none occurs twice.
\<close>

lemma scan_range_outcomes:
  assumes "start_id \<le> end_id" and "0 \<le> interval"
    and "\<And>i. start_id \<le> i \<Longrightarrow> i \<le> end_id \<Longrightarrow> optional_dict (get_project_info (net i))"
  shows "fst (scan_range net start_id end_id interval init_scanner) = Inr () \<and>
     length (scan_results (snd (scan_range net start_id end_id interval init_scanner)))
       = nat (end_id - start_id + 1) \<and>
     map id_val (scan_results (snd (scan_range net start_id end_id interval init_scanner)))
       = [start_id..end_id] \<and>
     (\<forall>k < nat (end_id - start_id + 1).
        id_val (scan_results (snd (scan_range net start_id end_id interval init_scanner)) ! k)
          = start_id + int k) \<and>
     distinct (map id_val
       (scan_results (snd (scan_range net start_id end_id interval init_scanner)))) \<and>
     sorted_wrt (<) (map id_val
       (scan_results (snd (scan_range net start_id end_id interval init_scanner))))"
proof -
  let ?log = "scan_results (snd (scan_range net start_id end_id interval init_scanner))"
  note run = scan_range_run [OF assms(2,3), where s = init_scanner]
  have fin: "fst (scan_range net start_id end_id interval init_scanner) = Inr ()"
    by (simp add: run)
  have len: "length ?log = nat (end_id - start_id + 1)"
    by (simp add: run)
  have ids: "map id_val ?log = [start_id..end_id]"
    by (simp add: run comp_def)
  have nth: "\<forall>k < nat (end_id - start_id + 1). id_val (?log ! k) = start_id + int k"
  proof (intro allI impI)
    fix k assume k: "k < nat (end_id - start_id + 1)"
    then have "id_val (?log ! k) = map id_val ?log ! k"
      using len by simp
    also have "\<dots> = start_id + int k"
      unfolding ids using k by simp
    finally show "id_val (?log ! k) = start_id + int k" .
  qed
  have dis: "distinct (map id_val ?log)"
    by (simp only: ids distinct_upto)
  have srt: "sorted_wrt (<) (map id_val ?log)"
    by (simp only: ids sorted_wrt_upto)
  from fin len ids nth dis srt show ?thesis by blast
qed

lemma scan_range_outcomes_demo:
  "(100::int) \<le> 102 \<and> (0::real) \<le> 1/2 \<and>
   optional_dict (get_project_info (demo_net 100)) \<and>
   optional_dict (get_project_info (demo_net 101)) \<and>
   optional_dict (get_project_info (demo_net 102)) \<and>
   fst (scan_range demo_net 100 102 (1/2) init_scanner) = Inr () \<and>
   length (scan_results (snd (scan_range demo_net 100 102 (1/2) init_scanner))) = 3 \<and>
   map id_val (scan_results (snd (scan_range demo_net 100 102 (1/2) init_scanner)))
     = [100, 101, 102]"
proof -
  have h1: "(100::int) \<le> 102" and h2: "(0::real) \<le> 1/2" by simp_all
  show ?thesis
    using scan_range_outcomes [where net = demo_net, OF h1 h2 demo_net_optional_dict]
      demo_net_optional_dict
    by simp
qed

lemma list_data_scan:
  "scan_range list_data_net 7 9 (1/2) init_scanner =
     (Inl AttributeError,
      \<lparr>hidden_projects = [],
       scan_results =
         [\<lparr>id_val = 7, hide = JInt 0, name = JStr ''B'', status = ''success'', error = None\<rparr>],
       trace = [Fetch 7, Sleep (1/2), Fetch 8]\<rparr>)"
  by (simp add: scan_range_def scan_step_def scan_project_def sleep_def list_data_net_def
      dict_get_def init_scanner_def Let_def)

text \<open>
  Claim C1 says that for every \<open>start_id \<le> end_id\<close> a scan on a fresh scanner logs exactly
  \<open>end_id - start_id + 1\<close> outcomes, with the IDs \<open>start_id..end_id\<close>. On answers of which
  the one for ID 8 is \<^verbatim>\<open>{"code": 0, "data": []}\<close>, the scan of 7..9 with interval 1/2 logs
  the outcome of ID 7 and no other: \<^verbatim>\<open>scan_project(8)\<close> raises \<^verbatim>\<open>AttributeError\<close>, which
  ends \<^verbatim>\<open>scan_range\<close>. One outcome is logged where the claim says three, and the IDs 8 and
  9 are missing.
\<close>

theorem scan_range_outcomes_aborted:
  "fst (scan_range list_data_net 7 9 (1/2) init_scanner) = Inl AttributeError \<and>
   map id_val (scan_results (snd (scan_range list_data_net 7 9 (1/2) init_scanner))) = [7] \<and>
   map id_val (scan_results (snd (scan_range list_data_net 7 9 (1/2) init_scanner))) \<noteq> [7..9] \<and>
   length (scan_results (snd (scan_range list_data_net 7 9 (1/2) init_scanner))) = 1 \<and>
   length (scan_results (snd (scan_range list_data_net 7 9 (1/2) init_scanner)))
     \<noteq> nat (9 - 7 + 1)"
  by (simp add: list_data_scan)

section \<open>The hidden projects and the log\<close>

text \<open>
  Claim C2, as stated, at a point during a scan. \<^verbatim>\<open>scan_project\<close> appends a hidden outcome
  to \<^verbatim>\<open>hidden_projects\<close> itself; \<^verbatim>\<open>scan_range\<close> appends the outcome to \<^verbatim>\<open>scan_results\<close>
  only after \<^verbatim>\<open>scan_project\<close> has returned. In a scan of the scenario, when the call for
  ID 100 returns, the hidden projects hold the outcome of 100 and the log is still empty:
  the hidden projects are not the hidden outcomes of the log.
\<close>

theorem hidden_ahead_of_log:
  "log_consistent init_scanner \<and>
   scan_project (demo_net 100) 100 init_scanner =
     (Inr \<lparr>id_val = 100, hide = JInt 1, name = JStr ''A'', status = ''success'', error = None\<rparr>,
      \<lparr>hidden_projects =
         [\<lparr>id_val = 100, hide = JInt 1, name = JStr ''A'', status = ''success'', error = None\<rparr>],
       scan_results = [], trace = [Fetch 100]\<rparr>) \<and>
   \<not> log_consistent (snd (scan_project (demo_net 100) 100 init_scanner))"
  by (simp add: log_consistent_def init_scanner_def scan_project_def demo_net_def dict_get_def Let_def)

text \<open>
  Claim C2, amended. Whenever an iteration of the loop of \<^verbatim>\<open>scan_range\<close> is complete (after
  any number \<open>k\<close> of IDs), and when \<^verbatim>\<open>scan_range\<close> ends, normally or by an exception, the
  hidden projects are exactly the outcomes of the log with status \<^verbatim>\<open>'success'\<close> and
  \<^verbatim>\<open>hide == 1\<close>, in the order of the log. Inside an iteration, when \<^verbatim>\<open>scan_project\<close> has
  returned an outcome that is not yet logged, they are those outcomes of the log followed
  by the outcome in hand. At each of these points every hidden project has status
  \<^verbatim>\<open>'success'\<close> and \<^verbatim>\<open>hide == 1\<close>: none has status \<^verbatim>\<open>'error'\<close>, none has \<^verbatim>\<open>hide\<close> absent.
  The scanner is one whose lists agree before the scan, as a fresh one does.
\<close>

theorem hidden_projects_invariant:
  assumes "log_consistent s"
  shows "log_consistent (snd (scan_range net start_id end_id interval s)) \<and>
     (\<forall>k. log_consistent (snd (scan_loop net interval end_id (take k [start_id..end_id]) s))) \<and>
     (\<forall>r s'. scan_project f i s = (Inr r, s') \<longrightarrow>
        hidden_projects s' = filter is_hidden (scan_results s' @ [r]) \<and>
        (\<forall>h\<in>set (hidden_projects s'). status h = ''success'' \<and> py_eq_int (hide h) 1 \<and>
           status h \<noteq> ''error'' \<and> hide h \<noteq> JNull)) \<and>
     (\<forall>h\<in>set (hidden_projects (snd (scan_range net start_id end_id interval s))).
        status h = ''success'' \<and> py_eq_int (hide h) 1 \<and> status h \<noteq> ''error'' \<and> hide h \<noteq> JNull)"
proof -
  have a: "log_consistent (snd (scan_range net start_id end_id interval s))"
    unfolding scan_range_def by (rule scan_loop_consistent [OF assms])
  have b: "\<forall>k. log_consistent (snd (scan_loop net interval end_id (take k [start_id..end_id]) s))"
    by (intro allI scan_loop_consistent [OF assms])
  have mem: "\<forall>h\<in>set (filter is_hidden xs). status h = ''success'' \<and> py_eq_int (hide h) 1 \<and>
           status h \<noteq> ''error'' \<and> hide h \<noteq> JNull" for xs
    by (auto simp: is_hidden_def)
  have c: "\<forall>r s'. scan_project f i s = (Inr r, s') \<longrightarrow>
        hidden_projects s' = filter is_hidden (scan_results s' @ [r]) \<and>
        (\<forall>h\<in>set (hidden_projects s'). status h = ''success'' \<and> py_eq_int (hide h) 1 \<and>
           status h \<noteq> ''error'' \<and> hide h \<noteq> JNull)"
  proof (intro allI impI)
    fix r s' assume run: "scan_project f i s = (Inr r, s')"
    have eq: "hidden_projects s' = filter is_hidden (scan_results s' @ [r])"
      by (rule scan_project_between [OF assms run])
    show "hidden_projects s' = filter is_hidden (scan_results s' @ [r]) \<and>
        (\<forall>h\<in>set (hidden_projects s'). status h = ''success'' \<and> py_eq_int (hide h) 1 \<and>
           status h \<noteq> ''error'' \<and> hide h \<noteq> JNull)"
      unfolding eq using mem by blast
  qed
  have d: "\<forall>h\<in>set (hidden_projects (snd (scan_range net start_id end_id interval s))).
        status h = ''success'' \<and> py_eq_int (hide h) 1 \<and> status h \<noteq> ''error'' \<and> hide h \<noteq> JNull"
    using a mem unfolding log_consistent_def by simp
  from a b c d show ?thesis by blast
qed

text \<open>The scenario: a fresh scanner, the scan of 100..102, the state after two IDs, and
  the call of \<^verbatim>\<open>scan_project\<close> for ID 100.\<close>

theorem hidden_projects_invariant_witness:
  "log_consistent init_scanner \<and>
   log_consistent (snd (scan_range demo_net 100 102 (1/2) init_scanner)) \<and>
   log_consistent (snd (scan_loop demo_net (1/2) 102 (take 2 [100..102]) init_scanner)) \<and>
   hidden_projects (snd (scan_range demo_net 100 102 (1/2) init_scanner)) =
     [\<lparr>id_val = 100, hide = JInt 1, name = JStr ''A'', status = ''success'', error = None\<rparr>] \<and>
   hidden_projects (snd (scan_project (demo_net 100) 100 init_scanner)) =
     filter is_hidden (scan_results (snd (scan_project (demo_net 100) 100 init_scanner)) @
       [\<lparr>id_val = 100, hide = JInt 1, name = JStr ''A'', status = ''success'', error = None\<rparr>])"
proof -
  have h: "log_consistent init_scanner"
    by (simp add: log_consistent_def)
  have run: "scan_project (demo_net 100) 100 init_scanner =
     (Inr \<lparr>id_val = 100, hide = JInt 1, name = JStr ''A'', status = ''success'', error = None\<rparr>,
      snd (scan_project (demo_net 100) 100 init_scanner))"
    by (simp add: scan_project_def demo_net_def dict_get_def Let_def)
  note inv = hidden_projects_invariant [OF h, where net = demo_net and start_id = 100
        and end_id = 102 and interval = "1/2" and f = "demo_net 100" and i = 100]
  have a: "log_consistent (snd (scan_range demo_net 100 102 (1/2) init_scanner))"
    by (rule inv [THEN conjunct1])
  have b: "log_consistent (snd (scan_loop demo_net (1/2) 102 (take 2 [100..102]) init_scanner))"
    by (rule inv [THEN conjunct2, THEN conjunct1, THEN spec])
  have c: "hidden_projects (snd (scan_project (demo_net 100) 100 init_scanner)) =
     filter is_hidden (scan_results (snd (scan_project (demo_net 100) 100 init_scanner)) @
       [\<lparr>id_val = 100, hide = JInt 1, name = JStr ''A'', status = ''success'', error = None\<rparr>])"
    by (rule inv [THEN conjunct2, THEN conjunct2, THEN conjunct1, THEN spec, THEN spec,
          THEN mp, OF run, THEN conjunct1])
  have d: "hidden_projects (snd (scan_range demo_net 100 102 (1/2) init_scanner)) =
     [\<lparr>id_val = 100, hide = JInt 1, name = JStr ''A'', status = ''success'', error = None\<rparr>]"
    by (simp add: demo_scan)
  from h a b d c show ?thesis by (intro conjI)
qed

section \<open>Failures of a single ID\<close>

text \<open>
  Claim C3, as stated, on the answer \<^verbatim>\<open>{code: 10002, message: "not found"}\<close>. The outcome
  has status \<^verbatim>\<open>'error'\<close>, but its error text is the fixed text of \<^verbatim>\<open>scan_project\<close>, the
  one a transport failure gets too, and \<^verbatim>\<open>not found\<close> is no part of it.
\<close>

theorem app_error_message_counterexample:
  "fst (scan_project (Payload (JObj [(''code'', JInt 10002), (''message'', JStr ''not found'')]))
          7 init_scanner) =
     Inr \<lparr>id_val = 7, hide = JNull, name = JNull, status = ''error'', error = Some err_no_info\<rparr> \<and>
   fst (scan_project TransportError 7 init_scanner) =
     Inr \<lparr>id_val = 7, hide = JNull, name = JNull, status = ''error'', error = Some err_no_info\<rparr> \<and>
   \<not> sublist ''not found'' err_no_info"
  by (simp add: scan_project_def dict_get_def)
     (simp add: err_no_info_def sublist_Cons_right)

text \<open>
  Claim C3, amended. When the body decodes to an object whose \<^verbatim>\<open>code\<close> is not \<^verbatim>\<open>== 0\<close>,
  the outcome has status \<^verbatim>\<open>'error'\<close>, \<^verbatim>\<open>hide\<close> and \<^verbatim>\<open>name\<close> absent, and the fixed error
  text of \<^verbatim>\<open>scan_project\<close>, whatever the \<^verbatim>\<open>message\<close> of the server: the outcome, and the
  whole effect of \<^verbatim>\<open>scan_project\<close>, are those of a transport failure. (The server's
  message goes to the console in \<^verbatim>\<open>get_project_info\<close>, and \<^verbatim>\<open>None\<close> is all that
  \<^verbatim>\<open>scan_project\<close> receives.)
\<close>

theorem app_error_outcome:
  assumes "\<not> py_eq_int (dict_get payload ''code'' JNull) 0"
  shows "scan_project (Payload (JObj payload)) i s =
      (Inr \<lparr>id_val = i, hide = JNull, name = JNull, status = ''error'',
            error = Some err_no_info\<rparr>,
       s\<lparr>trace := trace s @ [Fetch i]\<rparr>) \<and>
     scan_project (Payload (JObj payload)) i s = scan_project TransportError i s"
proof -
  have "get_project_info (Payload (JObj payload)) = JNull"
    using assms by simp
  then show ?thesis
    by (simp add: scan_project_none)
qed

text \<open>The answer \<^verbatim>\<open>{code: 10002, message: "not found"}\<close> for ID 7.\<close>

theorem app_error_outcome_witness:
  "\<not> py_eq_int (dict_get [(''code'', JInt 10002), (''message'', JStr ''not found'')] ''code'' JNull) 0 \<and>
   scan_project (Payload (JObj [(''code'', JInt 10002), (''message'', JStr ''not found'')]))
       7 init_scanner =
     (Inr \<lparr>id_val = 7, hide = JNull, name = JNull, status = ''error'', error = Some err_no_info\<rparr>,
      \<lparr>hidden_projects = [], scan_results = [], trace = [Fetch 7]\<rparr>) \<and>
   scan_project (Payload (JObj [(''code'', JInt 10002), (''message'', JStr ''not found'')]))
       7 init_scanner = scan_project TransportError 7 init_scanner"
proof -
  have h: "\<not> py_eq_int (dict_get [(''code'', JInt 10002), (''message'', JStr ''not found'')]
              ''code'' JNull) 0"
    by (simp add: dict_get_def)
  note app = app_error_outcome [OF h, of 7 init_scanner]
  have a: "scan_project (Payload (JObj [(''code'', JInt 10002), (''message'', JStr ''not found'')]))
       7 init_scanner =
     (Inr \<lparr>id_val = 7, hide = JNull, name = JNull, status = ''error'', error = Some err_no_info\<rparr>,
      \<lparr>hidden_projects = [], scan_results = [], trace = [Fetch 7]\<rparr>)"
    using app [THEN conjunct1] by (simp only: init_scanner_fetch)
  from h a app [THEN conjunct2] show ?thesis by (intro conjI)
qed

text \<open>
  Claim C4 says that \<^verbatim>\<open>scan_project\<close> returns an outcome for every result of the request
  and that no single ID ends the scan. On the answer \<^verbatim>\<open>{"code": 0, "data": []}\<close>
  \<^verbatim>\<open>get_project_info\<close> returns the list, against its declared \<^verbatim>\<open>Optional[Dict]\<close>, and
  \<^verbatim>\<open>project_info.get('hide')\<close> raises \<^verbatim>\<open>AttributeError\<close> outside any \<^verbatim>\<open>try\<close>:
  \<^verbatim>\<open>scan_project\<close> returns no outcome, and a scan of 7..8 ends at ID 7 with nothing logged
  and no request for ID 8. (The four kinds of failure that the claim lists do give an
  \<^verbatim>\<open>'error'\<close> outcome, by \<open>scan_project_none\<close>.)
\<close>

theorem scan_project_attribute_error:
  "scan_project (Payload (JObj [(''code'', JInt 0), (''data'', JArr [])])) 7 init_scanner =
     (Inl AttributeError, \<lparr>hidden_projects = [], scan_results = [], trace = [Fetch 7]\<rparr>) \<and>
   scan_range (\<lambda>i. Payload (JObj [(''code'', JInt 0), (''data'', JArr [])])) 7 8 (1/2)
       init_scanner =
     (Inl AttributeError, \<lparr>hidden_projects = [], scan_results = [], trace = [Fetch 7]\<rparr>)"
  by (simp add: scan_range_def scan_step_def scan_project_def dict_get_def init_scanner_def)

text \<open>
  Claim C5. When the payload is accepted (\<^verbatim>\<open>get_project_info\<close> returns its \<^verbatim>\<open>data\<close> object)
  and that object has no \<^verbatim>\<open>hide\<close> key, the outcome has status \<^verbatim>\<open>'success'\<close> and \<^verbatim>\<open>hide\<close>
  \<^verbatim>\<open>None\<close>, which is neither \<^verbatim>\<open>== 0\<close> nor \<^verbatim>\<open>== 1\<close>, and the hidden projects stay as they
  were. \<^verbatim>\<open>scan_project\<close> appends the outcome it returns to the hidden projects exactly
  when its \<^verbatim>\<open>hide == 1\<close> (Python's \<^verbatim>\<open>==\<close>, which \<^verbatim>\<open>1\<close>, \<^verbatim>\<open>1.0\<close> and \<^verbatim>\<open>True\<close> satisfy), and
  after a scan on a fresh scanner every hidden project has \<^verbatim>\<open>hide == 1\<close>, so none has
  \<^verbatim>\<open>hide\<close> absent.
\<close>

theorem absent_hide_not_hidden:
  assumes "get_project_info f = JObj d" and "map_of d ''hide'' = None"
  shows "scan_project f i s =
      (Inr \<lparr>id_val = i, hide = JNull, name = dict_get d ''name'' (JStr unknown_project),
            status = ''success'', error = None\<rparr>,
       s\<lparr>trace := trace s @ [Fetch i]\<rparr>) \<and>
     hidden_projects (snd (scan_project f i s)) = hidden_projects s \<and>
     \<not> py_eq_int JNull 1 \<and> \<not> py_eq_int JNull 0 \<and>
     (\<forall>g j t r t'. scan_project g j t = (Inr r, t') \<longrightarrow>
        hidden_projects t' = hidden_projects t @ (if py_eq_int (hide r) 1 then [r] else [])) \<and>
     (\<forall>h\<in>set (hidden_projects (snd (scan_range net start_id end_id interval init_scanner))).
        py_eq_int (hide h) 1 \<and> hide h \<noteq> JNull)"
proof -
  have hd: "dict_get d ''hide'' JNull = JNull"
    by (simp add: dict_get_def assms(2))
  have a: "scan_project f i s =
      (Inr \<lparr>id_val = i, hide = JNull, name = dict_get d ''name'' (JStr unknown_project),
            status = ''success'', error = None\<rparr>,
       s\<lparr>trace := trace s @ [Fetch i]\<rparr>)"
    by (simp add: scan_project_dict [OF assms(1)] hd)
  have b: "hidden_projects (snd (scan_project f i s)) = hidden_projects s"
    by (simp add: a)
  have c: "\<forall>g j t r t'. scan_project g j t = (Inr r, t') \<longrightarrow>
        hidden_projects t' = hidden_projects t @ (if py_eq_int (hide r) 1 then [r] else [])"
  proof (intro allI impI)
    fix g j t r t' assume run: "scan_project g j t = (Inr r, t')"
    show "hidden_projects t' = hidden_projects t @ (if py_eq_int (hide r) 1 then [r] else [])"
    proof (cases "optional_dict (get_project_info g)")
      case True
      show ?thesis using run by (auto simp: scan_project_ok [OF True])
    next
      case False
      show ?thesis using run by (simp add: scan_project_raise [OF False])
    qed
  qed
  have "log_consistent (snd (scan_range net start_id end_id interval init_scanner))"
    unfolding scan_range_def by (rule scan_loop_consistent) (simp add: log_consistent_def)
  then have e: "\<forall>h\<in>set (hidden_projects (snd (scan_range net start_id end_id interval init_scanner))).
        py_eq_int (hide h) 1 \<and> hide h \<noteq> JNull"
    by (auto simp: log_consistent_def is_hidden_def)
  from a b c e show ?thesis by simp
qed

text \<open>The answer \<^verbatim>\<open>{code: 0, data: {name: "C"}}\<close> for ID 9.\<close>

theorem absent_hide_not_hidden_witness:
  "get_project_info (Payload (JObj [(''code'', JInt 0), (''data'', JObj [(''name'', JStr ''C'')])])) =
     JObj [(''name'', JStr ''C'')] \<and>
   map_of [(''name'', JStr ''C'')] ''hide'' = None \<and>
   scan_project (Payload (JObj [(''code'', JInt 0), (''data'', JObj [(''name'', JStr ''C'')])]))
       9 init_scanner =
     (Inr \<lparr>id_val = 9, hide = JNull, name = JStr ''C'', status = ''success'', error = None\<rparr>,
      \<lparr>hidden_projects = [], scan_results = [], trace = [Fetch 9]\<rparr>)"
proof -
  have h1: "get_project_info
      (Payload (JObj [(''code'', JInt 0), (''data'', JObj [(''name'', JStr ''C'')])])) =
     JObj [(''name'', JStr ''C'')]"
    by (simp add: dict_get_def)
  have h2: "map_of [(''name'', JStr ''C'')] ''hide'' = None"
    by simp
  have nm: "dict_get [(''name'', JStr ''C'')] ''name'' (JStr unknown_project) = JStr ''C''"
    by (simp add: dict_get_def)
  have a: "scan_project (Payload (JObj [(''code'', JInt 0), (''data'', JObj [(''name'', JStr ''C'')])]))
       9 init_scanner =
     (Inr \<lparr>id_val = 9, hide = JNull, name = JStr ''C'', status = ''success'', error = None\<rparr>,
      \<lparr>hidden_projects = [], scan_results = [], trace = [Fetch 9]\<rparr>)"
    using absent_hide_not_hidden [OF h1 h2, of 9 init_scanner, THEN conjunct1]
    by (simp only: init_scanner_fetch nm)
  from h1 h2 a show ?thesis by (intro conjI)
qed

section \<open>Requests and delays\<close>

text \<open>
  A scan whose interval is not negative and whose requests all let \<^verbatim>\<open>get_project_info\<close>
  return a value of its declared type, on a fresh scanner with \<open>start_id \<le> end_id\<close>: the
  outside actions are, for each ID in ascending order, one request, followed by one sleep
  of \<open>interval\<close> unless the ID is \<open>end_id\<close>. The sleeps are \<open>n - 1\<close> for \<open>n\<close> IDs, each of
  exactly \<open>interval\<close>, the requests are one per ID, and the last action is the request
  for \<open>end_id\<close>. A scan of a single ID makes one request and no sleep, whatever the
  interval and whatever the request meets.
\<close>

lemma scan_range_delays:
  assumes "start_id \<le> end_id" and "0 \<le> interval"
    and "\<And>i. start_id \<le> i \<Longrightarrow> i \<le> end_id \<Longrightarrow> optional_dict (get_project_info (net i))"
  shows "trace (snd (scan_range net start_id end_id interval init_scanner)) =
       concat (map (\<lambda>i. if i < end_id then [Fetch i, Sleep interval] else [Fetch i])
         [start_id..end_id]) \<and>
     filter is_Sleep (trace (snd (scan_range net start_id end_id interval init_scanner))) =
       replicate (nat (end_id - start_id)) (Sleep interval) \<and>
     length (filter is_Sleep (trace (snd (scan_range net start_id end_id interval init_scanner))))
       = nat (end_id - start_id + 1) - 1 \<and>
     filter is_Fetch (trace (snd (scan_range net start_id end_id interval init_scanner))) =
       map Fetch [start_id..end_id] \<and>
     last (trace (snd (scan_range net start_id end_id interval init_scanner))) = Fetch end_id \<and>
     trace (snd (scan_range net' a a interval' init_scanner)) = [Fetch a]"
proof -
  let ?tr = "trace (snd (scan_range net start_id end_id interval init_scanner))"
  have tr: "?tr = concat (map (\<lambda>i. if i < end_id then [Fetch i, Sleep interval] else [Fetch i])
         [start_id..end_id])"
    by (simp add: scan_range_run [OF assms(2,3)])
  have tr2: "?tr = concat (map (\<lambda>i. [Fetch i, Sleep interval]) [start_id..end_id - 1]) @
      [Fetch end_id]"
    unfolding tr by (rule trace_upto [OF assms(1)])
  have sl: "filter is_Sleep ?tr = replicate (nat (end_id - start_id)) (Sleep interval)"
    unfolding tr2 by (simp add: count_pairs map_replicate_const)
  have n: "length (filter is_Sleep ?tr) = nat (end_id - start_id + 1) - 1"
    unfolding sl using assms(1) by simp
  have fe: "filter is_Fetch ?tr = map Fetch [start_id..end_id]"
    unfolding tr2 upto_rec2 [OF assms(1)] by (simp add: fetch_pairs)
  have la: "last ?tr = Fetch end_id"
    unfolding tr2 by simp
  from tr sl n fe la scan_range_single show ?thesis by blast
qed

text \<open>The scenario with interval 1/2, and the single-ID scan of 5.\<close>

lemma scan_range_delays_demo:
  "(100::int) \<le> 102 \<and> (0::real) \<le> 1/2 \<and>
   optional_dict (get_project_info (demo_net 100)) \<and>
   optional_dict (get_project_info (demo_net 101)) \<and>
   optional_dict (get_project_info (demo_net 102)) \<and>
   trace (snd (scan_range demo_net 100 102 (1/2) init_scanner)) =
     [Fetch 100, Sleep (1/2), Fetch 101, Sleep (1/2), Fetch 102] \<and>
   filter is_Sleep (trace (snd (scan_range demo_net 100 102 (1/2) init_scanner))) =
     [Sleep (1/2), Sleep (1/2)] \<and>
   trace (snd (scan_range demo_net 5 5 (1/2) init_scanner)) = [Fetch 5]"
proof -
  have h1: "(100::int) \<le> 102" and h2: "(0::real) \<le> 1/2" by simp_all
  note d = scan_range_delays [where net = demo_net and net' = demo_net and a = 5
      and interval' = "1/2", OF h1 h2 demo_net_optional_dict]
  have a: "trace (snd (scan_range demo_net 100 102 (1/2) init_scanner)) =
     [Fetch 100, Sleep (1/2), Fetch 101, Sleep (1/2), Fetch 102]"
    using d [THEN conjunct1] by simp
  have b: "filter is_Sleep (trace (snd (scan_range demo_net 100 102 (1/2) init_scanner))) =
     [Sleep (1/2), Sleep (1/2)]"
    using d [THEN conjunct2, THEN conjunct1] by (simp add: numeral_2_eq_2)
  have c: "trace (snd (scan_range demo_net 5 5 (1/2) init_scanner)) = [Fetch 5]"
    by (rule d [THEN conjunct2, THEN conjunct2, THEN conjunct2, THEN conjunct2, THEN conjunct2])
  from h1 h2 demo_net_optional_dict a b c show ?thesis by (intro conjI)
qed

text \<open>
  Claim C6 says that for every \<open>start_id \<le> end_id\<close> a scan sleeps for \<open>interval\<close> after
  each ID but the last, \<open>n - 1\<close> times for \<open>n\<close> IDs. On answers of which the one for ID 8 is
  \<^verbatim>\<open>{"code": 0, "data": []}\<close>, the scan of the three IDs 7..9 with interval 1/2 sleeps
  once, after ID 7: \<^verbatim>\<open>scan_project(8)\<close> raises \<^verbatim>\<open>AttributeError\<close>, which ends
  \<^verbatim>\<open>scan_range\<close> before the sleep after ID 8 and before any request for ID 9. One sleep
  is made where the claim says two.
\<close>

theorem scan_range_delays_aborted:
  "trace (snd (scan_range list_data_net 7 9 (1/2) init_scanner)) =
     [Fetch 7, Sleep (1/2), Fetch 8] \<and>
   filter is_Sleep (trace (snd (scan_range list_data_net 7 9 (1/2) init_scanner))) =
     [Sleep (1/2)] \<and>
   filter is_Fetch (trace (snd (scan_range list_data_net 7 9 (1/2) init_scanner))) =
     [Fetch 7, Fetch 8] \<and>
   length (filter is_Sleep (trace (snd (scan_range list_data_net 7 9 (1/2) init_scanner))))
     \<noteq> nat (9 - 7 + 1) - 1 \<and>
   Fetch 9 \<notin> set (trace (snd (scan_range list_data_net 7 9 (1/2) init_scanner)))"
  by (simp add: list_data_scan)

section \<open>The saved document\<close>

text \<open>
  Claim C7. When \<^verbatim>\<open>save_results\<close> has written its document, parsing the document gives
  an object whose \<^verbatim>\<open>total_scanned\<close> is the length of the log, whose \<^verbatim>\<open>hidden_count\<close> is
  the number of hidden projects, and whose \<^verbatim>\<open>all_results\<close> has one object per logged
  outcome, in the order of the log, with that outcome's \<^verbatim>\<open>id\<close>, \<^verbatim>\<open>hide\<close>, \<^verbatim>\<open>name\<close>,
  \<^verbatim>\<open>status\<close> and \<^verbatim>\<open>error\<close>; the log is the only list of outcomes with these objects.
  Python's \<^verbatim>\<open>json\<close> encoder and decoder are parameters, with the one property that the
  decoder \<open>load\<close> gives back the value from which \<open>dump\<close> produced a text.
\<close>

theorem save_results_round_trip:
  assumes "\<And>v doc. dump v = Some doc \<Longrightarrow> load doc = Some v"
    and "save_results dump writable filename stamp scan_time s = Some (fname, doc)"
  shows "\<exists>v objs. load doc = Some v \<and>
     json_field v ''total_scanned'' = Some (JInt (int (length (scan_results s)))) \<and>
     json_field v ''hidden_count'' = Some (JInt (int (length (hidden_projects s)))) \<and>
     json_field v ''all_results'' = Some (JArr objs) \<and>
     length objs = length (scan_results s) \<and>
     (\<forall>k < length (scan_results s).
        json_field (objs ! k) ''id'' = Some (JInt (id_val (scan_results s ! k))) \<and>
        json_field (objs ! k) ''hide'' = Some (hide (scan_results s ! k)) \<and>
        json_field (objs ! k) ''name'' = Some (name (scan_results s ! k)) \<and>
        json_field (objs ! k) ''status'' = Some (JStr (status (scan_results s ! k))) \<and>
        json_field (objs ! k) ''error'' =
          Some (case error (scan_results s ! k) of None \<Rightarrow> JNull | Some m \<Rightarrow> JStr m)) \<and>
     (\<forall>log. map outcome_dict log = objs \<longrightarrow> log = scan_results s)"
proof -
  have "load doc = Some (results_data scan_time s)"
    by (rule assms(1) [OF save_results_Some [OF assms(2)]])
  moreover have "\<forall>log. map outcome_dict log = map outcome_dict (scan_results s) \<longrightarrow>
      log = scan_results s"
    by (auto simp: inj_on_def dest!: map_inj_on [where f = outcome_dict] intro: outcome_dict_inj)
  ultimately show ?thesis
    by (intro exI [where x = "results_data scan_time s"]
        exI [where x = "map outcome_dict (scan_results s)"])
       (simp add: results_data_fields outcome_dict_fields)
qed

text \<open>The scenario, saved without a file name, with the identity as encoder and decoder.\<close>

theorem save_results_round_trip_witness:
  "save_results Some (\<lambda>f. True) None ''20240101_120000'' ''2024-01-01T12:00:00''
       (snd (scan_range demo_net 100 102 (1/2) init_scanner)) =
     Some (''bilibili_scan_results_20240101_120000.json'',
           results_data ''2024-01-01T12:00:00''
             (snd (scan_range demo_net 100 102 (1/2) init_scanner))) \<and>
   json_field (results_data ''2024-01-01T12:00:00''
       (snd (scan_range demo_net 100 102 (1/2) init_scanner))) ''total_scanned'' = Some (JInt 3) \<and>
   json_field (results_data ''2024-01-01T12:00:00''
       (snd (scan_range demo_net 100 102 (1/2) init_scanner))) ''hidden_count'' = Some (JInt 1)"
proof -
  let ?s = "snd (scan_range demo_net 100 102 (1/2) init_scanner)"
  let ?doc = "results_data ''2024-01-01T12:00:00'' ?s"
  have rt: "\<And>v doc. Some v = Some doc \<Longrightarrow> Some doc = Some v"
    by simp
  have saved: "save_results Some (\<lambda>f. True) None ''20240101_120000'' ''2024-01-01T12:00:00'' ?s =
     Some (''bilibili_scan_results_20240101_120000.json'', ?doc)"
    by (simp add: save_results_def)
  from save_results_round_trip [where dump = Some and load = Some, OF rt saved]
  obtain v where v: "Some ?doc = Some v"
    "json_field v ''total_scanned'' = Some (JInt (int (length (scan_results ?s))))"
    "json_field v ''hidden_count'' = Some (JInt (int (length (hidden_projects ?s))))"
    by blast
  have len: "length (scan_results ?s) = 3" "length (hidden_projects ?s) = 1"
    by (simp_all add: demo_scan)
  from v(1) have eq: "v = ?doc" by simp
  have a: "json_field ?doc ''total_scanned'' = Some (JInt 3)"
    using v(2) unfolding eq len by simp
  have b: "json_field ?doc ''hidden_count'' = Some (JInt 1)"
    using v(3) unfolding eq len by simp
  from saved a b show ?thesis by (intro conjI)
qed

section \<open>Status of an outcome\<close>

text \<open>
  Claim C8. When the request fails, for whatever reason (\<^verbatim>\<open>get_project_info\<close> returns
  \<^verbatim>\<open>None\<close>), \<^verbatim>\<open>scan_project\<close> returns an outcome with status \<^verbatim>\<open>'error'\<close>, \<^verbatim>\<open>hide\<close> and
  \<^verbatim>\<open>name\<close> \<^verbatim>\<open>None\<close>, and an error text that is not empty. The reasons: a transport error,
  an HTTP error status, a body that does not decode, any other exception, a body that is
  not an object, an object whose \<^verbatim>\<open>code\<close> is not \<^verbatim>\<open>== 0\<close>. When the body is an object with
  \<^verbatim>\<open>code == 0\<close> and an object as \<^verbatim>\<open>data\<close>, the outcome has status \<^verbatim>\<open>'success'\<close>, with the
  \<^verbatim>\<open>hide\<close> of the data whatever it is.
\<close>

theorem scan_project_status:
  "(get_project_info f = JNull \<longrightarrow>
      scan_project f i s =
        (Inr \<lparr>id_val = i, hide = JNull, name = JNull, status = ''error'',
              error = Some err_no_info\<rparr>,
         s\<lparr>trace := trace s @ [Fetch i]\<rparr>)) \<and>
   err_no_info \<noteq> [] \<and>
   get_project_info TransportError = JNull \<and>
   get_project_info (HTTPStatusError code) = JNull \<and>
   get_project_info DecodeError = JNull \<and>
   get_project_info OtherError = JNull \<and>
   ((\<forall>d. body \<noteq> JObj d) \<longrightarrow> get_project_info (Payload body) = JNull) \<and>
   (\<not> py_eq_int (dict_get p ''code'' JNull) 0 \<longrightarrow> get_project_info (Payload (JObj p)) = JNull) \<and>
   (py_eq_int (dict_get p ''code'' JNull) 0 \<and> dict_get p ''data'' JNull = JObj d \<longrightarrow>
      fst (scan_project (Payload (JObj p)) i s) =
        Inr \<lparr>id_val = i, hide = dict_get d ''hide'' JNull,
             name = dict_get d ''name'' (JStr unknown_project),
             status = ''success'', error = None\<rparr>)"
proof -
  have a: "get_project_info f = JNull \<longrightarrow>
      scan_project f i s =
        (Inr \<lparr>id_val = i, hide = JNull, name = JNull, status = ''error'',
              error = Some err_no_info\<rparr>,
         s\<lparr>trace := trace s @ [Fetch i]\<rparr>)"
    by (simp add: scan_project_none)
  have b: "err_no_info \<noteq> []"
    by (simp add: err_no_info_def)
  have c: "(\<forall>d. body \<noteq> JObj d) \<longrightarrow> get_project_info (Payload body) = JNull"
    by (cases body) simp_all
  have e: "py_eq_int (dict_get p ''code'' JNull) 0 \<and> dict_get p ''data'' JNull = JObj d \<longrightarrow>
      fst (scan_project (Payload (JObj p)) i s) =
        Inr \<lparr>id_val = i, hide = dict_get d ''hide'' JNull,
             name = dict_get d ''name'' (JStr unknown_project),
             status = ''success'', error = None\<rparr>"
  proof
    assume "py_eq_int (dict_get p ''code'' JNull) 0 \<and> dict_get p ''data'' JNull = JObj d"
    then have "get_project_info (Payload (JObj p)) = JObj d" by simp
    then show "fst (scan_project (Payload (JObj p)) i s) =
        Inr \<lparr>id_val = i, hide = dict_get d ''hide'' JNull,
             name = dict_get d ''name'' (JStr unknown_project),
             status = ''success'', error = None\<rparr>"
      by (simp add: scan_project_dict)
  qed
  from a b c e show ?thesis by simp
qed

text \<open>The timeout for ID 101, a body that is a list, the answer
  \<^verbatim>\<open>{code: 10002, message: "not found"}\<close>, and the answer for ID 102 of the scenario.\<close>

theorem scan_project_status_witness:
  "get_project_info (demo_net 101) = JNull \<and>
   scan_project (demo_net 101) 101 init_scanner =
     (Inr \<lparr>id_val = 101, hide = JNull, name = JNull, status = ''error'',
           error = Some err_no_info\<rparr>,
      \<lparr>hidden_projects = [], scan_results = [], trace = [Fetch 101]\<rparr>) \<and>
   get_project_info (Payload (JArr [])) = JNull \<and>
   get_project_info (Payload (JObj [(''code'', JInt 10002), (''message'', JStr ''not found'')]))
     = JNull \<and>
   fst (scan_project
          (Payload (JObj [(''code'', JInt 0),
                          (''data'', JObj [(''hide'', JInt 0), (''name'', JStr ''B'')])]))
          102 init_scanner) =
     Inr \<lparr>id_val = 102, hide = JInt 0, name = JStr ''B'', status = ''success'', error = None\<rparr>"
proof -
  let ?p = "[(''code'', JInt 0), (''data'', JObj [(''hide'', JInt 0), (''name'', JStr ''B'')])]"
  let ?q = "[(''code'', JInt 10002), (''message'', JStr ''not found'')]"
  note st = scan_project_status [where f = "demo_net 101" and i = 101 and s = init_scanner
      and body = "JArr []" and p = ?q]
  note st2 = scan_project_status [where p = ?p and i = 102 and s = init_scanner
      and d = "[(''hide'', JInt 0), (''name'', JStr ''B'')]"]
  have h1: "get_project_info (demo_net 101) = JNull"
    by (simp add: demo_net_def)
  have h2: "\<forall>d. JArr [] \<noteq> JObj d" by simp
  have h3: "\<not> py_eq_int (dict_get ?q ''code'' JNull) 0"
    by (simp add: dict_get_def)
  have h4: "py_eq_int (dict_get ?p ''code'' JNull) 0 \<and>
      dict_get ?p ''data'' JNull = JObj [(''hide'', JInt 0), (''name'', JStr ''B'')]"
    by (simp add: dict_get_def)
  have a: "scan_project (demo_net 101) 101 init_scanner =
     (Inr \<lparr>id_val = 101, hide = JNull, name = JNull, status = ''error'',
           error = Some err_no_info\<rparr>,
      \<lparr>hidden_projects = [], scan_results = [], trace = [Fetch 101]\<rparr>)"
    using st [THEN conjunct1, THEN mp, OF h1] by (simp only: init_scanner_fetch)
  have b: "get_project_info (Payload (JArr [])) = JNull"
    by (rule st [THEN conjunct2, THEN conjunct2, THEN conjunct2, THEN conjunct2,
          THEN conjunct2, THEN conjunct2, THEN conjunct1, THEN mp, OF h2])
  have c: "get_project_info (Payload (JObj ?q)) = JNull"
    by (rule st [THEN conjunct2, THEN conjunct2, THEN conjunct2, THEN conjunct2,
          THEN conjunct2, THEN conjunct2, THEN conjunct2, THEN conjunct1, THEN mp, OF h3])
  have d: "fst (scan_project (Payload (JObj ?p)) 102 init_scanner) =
     Inr \<lparr>id_val = 102, hide = JInt 0, name = JStr ''B'', status = ''success'', error = None\<rparr>"
    using st2 [THEN conjunct2, THEN conjunct2, THEN conjunct2, THEN conjunct2,
          THEN conjunct2, THEN conjunct2, THEN conjunct2, THEN conjunct2, THEN mp, OF h4]
    by (simp add: dict_get_def)
  from h1 a b c d show ?thesis by (intro conjI)
qed

text \<open>
  Claim C9. Every outcome that \<^verbatim>\<open>scan_project\<close> returns has status \<^verbatim>\<open>'success'\<close> or
  \<^verbatim>\<open>'error'\<close>, never the initial \<^verbatim>\<open>'unknown'\<close>, and so has every outcome in the log after a
  scan on a fresh scanner.
\<close>

theorem outcome_status_values:
  "(fst (scan_project f i s) = Inr r \<longrightarrow>
      (status r = ''success'' \<or> status r = ''error'') \<and> status r \<noteq> ''unknown'') \<and>
   (\<forall>r\<in>set (scan_results (snd (scan_range net start_id end_id interval init_scanner))).
      (status r = ''success'' \<or> status r = ''error'') \<and> status r \<noteq> ''unknown'')"
proof -
  have a: "fst (scan_project f i s) = Inr r \<longrightarrow>
      (status r = ''success'' \<or> status r = ''error'') \<and> status r \<noteq> ''unknown''"
  proof (cases "optional_dict (get_project_info f)")
    case True
    show ?thesis
      using outcome_of_status [of "get_project_info f" i]
      by (auto simp: scan_project_ok [OF True])
  next
    case False
    show ?thesis by (simp add: scan_project_raise [OF False])
  qed
  obtain rs where rs:
    "scan_results (snd (scan_range net start_id end_id interval init_scanner)) =
       scan_results init_scanner @ rs"
    "\<forall>r\<in>set rs. \<exists>j. r = outcome_of (get_project_info (net j)) j"
    using scan_loop_log [of net interval end_id "[start_id..end_id]" init_scanner]
    unfolding scan_range_def by blast
  have b: "\<forall>r\<in>set (scan_results (snd (scan_range net start_id end_id interval init_scanner))).
      (status r = ''success'' \<or> status r = ''error'') \<and> status r \<noteq> ''unknown''"
  proof
    fix r assume "r \<in> set (scan_results (snd (scan_range net start_id end_id interval init_scanner)))"
    then have "r \<in> set rs" by (simp add: rs(1))
    then obtain j where "r = outcome_of (get_project_info (net j)) j"
      using rs(2) by blast
    then show "(status r = ''success'' \<or> status r = ''error'') \<and> status r \<noteq> ''unknown''"
      using outcome_of_status by simp
  qed
  from a b show ?thesis by (rule conjI)
qed

text \<open>The call for ID 100 of the scenario, and the log of the scan of 100..102.\<close>

theorem outcome_status_values_witness:
  "fst (scan_project (demo_net 100) 100 init_scanner) =
     Inr \<lparr>id_val = 100, hide = JInt 1, name = JStr ''A'', status = ''success'', error = None\<rparr> \<and>
   status \<lparr>id_val = 100, hide = JInt 1, name = JStr ''A'', status = ''success'', error = None\<rparr>
     \<noteq> ''unknown'' \<and>
   list_all (\<lambda>r. status r \<noteq> ''unknown'')
     (scan_results (snd (scan_range demo_net 100 102 (1/2) init_scanner))) \<and>
   map status (scan_results (snd (scan_range demo_net 100 102 (1/2) init_scanner))) =
     [''success'', ''error'', ''success'']"
proof -
  let ?r = "\<lparr>id_val = 100, hide = JInt 1, name = JStr ''A'', status = ''success'', error = None\<rparr>"
  note v = outcome_status_values [where f = "demo_net 100" and i = 100 and s = init_scanner
      and r = ?r and net = demo_net and start_id = 100 and end_id = 102 and interval = "1/2"]
  have h: "fst (scan_project (demo_net 100) 100 init_scanner) = Inr ?r"
    by (simp add: hidden_ahead_lemma)
  have a: "status ?r \<noteq> ''unknown''"
    by (rule v [THEN conjunct1, THEN mp, OF h, THEN conjunct2])
  have b: "list_all (\<lambda>r. status r \<noteq> ''unknown'')
     (scan_results (snd (scan_range demo_net 100 102 (1/2) init_scanner)))"
    using v [THEN conjunct2] unfolding list_all_iff by blast
  have c: "map status (scan_results (snd (scan_range demo_net 100 102 (1/2) init_scanner))) =
     [''success'', ''error'', ''success'']"
    by (simp add: demo_scan)
  from h a b c show ?thesis by (intro conjI)
qed

section \<open>Scanning again with the same scanner\<close>

text \<open>
  Claim C10. Both lists are empty at construction, and \<^verbatim>\<open>scan_range\<close> never clears them:
  on a scanner in any state \<open>s\<close>, such as the state that an earlier scan has left, a scan
  ends as it would on a fresh scanner, and leaves the log of \<open>s\<close> followed by the log that
  the scan would leave on a fresh scanner, and likewise the hidden projects. The document
  of \<^verbatim>\<open>save_results\<close> then gives as \<^verbatim>\<open>total_scanned\<close> and \<^verbatim>\<open>hidden_count\<close> the sums over
  the earlier scans and this one.
\<close>

theorem scan_range_appends:
  "hidden_projects init_scanner = [] \<and> scan_results init_scanner = [] \<and>
   fst (scan_range net start_id end_id interval s) =
     fst (scan_range net start_id end_id interval init_scanner) \<and>
   scan_results (snd (scan_range net start_id end_id interval s)) =
     scan_results s @ scan_results (snd (scan_range net start_id end_id interval init_scanner)) \<and>
   hidden_projects (snd (scan_range net start_id end_id interval s)) =
     hidden_projects s @
       hidden_projects (snd (scan_range net start_id end_id interval init_scanner)) \<and>
   json_field (results_data scan_time (snd (scan_range net start_id end_id interval s)))
       ''total_scanned'' =
     Some (JInt (int (length (scan_results s)) +
       int (length (scan_results (snd (scan_range net start_id end_id interval init_scanner)))))) \<and>
   json_field (results_data scan_time (snd (scan_range net start_id end_id interval s)))
       ''hidden_count'' =
     Some (JInt (int (length (hidden_projects s)) +
       int (length (hidden_projects (snd (scan_range net start_id end_id interval init_scanner))))))"
proof -
  have fr: "scan_range net start_id end_id interval s =
     (fst (scan_range net start_id end_id interval init_scanner),
      scanner_append s (snd (scan_range net start_id end_id interval init_scanner)))"
    unfolding scan_range_def by (rule scan_loop_frame)
  have a: "fst (scan_range net start_id end_id interval s) =
     fst (scan_range net start_id end_id interval init_scanner)"
    by (subst fr) simp
  have b: "scan_results (snd (scan_range net start_id end_id interval s)) =
     scan_results s @ scan_results (snd (scan_range net start_id end_id interval init_scanner))"
    by (subst fr) simp
  have c: "hidden_projects (snd (scan_range net start_id end_id interval s)) =
     hidden_projects s @
       hidden_projects (snd (scan_range net start_id end_id interval init_scanner))"
    by (subst fr) simp
  show ?thesis
    unfolding results_data_fields a b c by simp
qed

end
